theory Spec2Isabelle
  imports Complex_Main "HOL-Library.Product_Lexorder"
begin

section \<open>Step scaling policy of aws-autoscaling: alarms and step tables\<close>

text \<open>
  The development embeds the constructor of \<^verbatim>\<open>StepScalingPolicy\<close> and
  \<^verbatim>\<open>aggregationTypeFromMetric\<close> (lib/step-scaling-policy.ts). The constructor
  imports \<^verbatim>\<open>normalizeIntervals\<close> and \<^verbatim>\<open>findAlarmThresholds\<close> from
  \<^verbatim>\<open>./interval-utils\<close>, a file that is not among the sources; the embedding of
  the constructor therefore takes both functions as arguments, and the specification's
  description of them is embedded separately as \<open>normalize_intervals\<close> and \<open>deriveThresholds\<close>.

  Numbers: a TypeScript \<^verbatim>\<open>number\<close> is an IEEE double; it is idealised here as a
  \<open>real\<close> (no rounding, no infinities). A field typed \<^verbatim>\<open>number | undefined\<close>
  is a \<open>real option\<close>, \<open>None\<close> being \<^verbatim>\<open>undefined\<close>.
\<close>

subsection \<open>JavaScript numbers\<close>

text \<open>The result of an arithmetic operator: a number, or \<^verbatim>\<open>NaN\<close>.\<close>

datatype jsnumber = Num real | NaN

text \<open>
  The binary operator \<^verbatim>\<open>a - b\<close> on operands that may be \<^verbatim>\<open>undefined\<close>:
  \<^verbatim>\<open>undefined\<close> converts to \<^verbatim>\<open>NaN\<close>, and \<^verbatim>\<open>NaN\<close> absorbs.
\<close>

fun jsminus :: "real option \<Rightarrow> real option \<Rightarrow> jsnumber" where
  "jsminus (Some a) (Some b) = Num (a - b)"
| "jsminus _ _ = NaN"

subsection \<open>Data model\<close>

text \<open>
  Modelled from the spec: \<^verbatim>\<open>ScalingInterval\<close> (lib/interval-types.ts is not among
  the sources) is \<^verbatim>\<open>{ lower?: number, upper?: number, change: number }\<close>. The
  normalized interval of the specification has the same fields, its outermost bounds
  being absent, so one record serves for both.
\<close>

record ScalingInterval =
  lower :: "real option"
  upper :: "real option"
  change :: real

type_synonym NormalizedInterval = ScalingInterval

text \<open>
  Modelled from the spec: \<^verbatim>\<open>AlarmThresholdResult\<close>, the value returned by
  \<^verbatim>\<open>findAlarmThresholds\<close>; the constructor reads its two fields.
\<close>

record AlarmThresholdResult =
  lowerAlarmIntervalIndex :: "nat option"
  upperAlarmIntervalIndex :: "nat option"

text \<open>
  Every \<^verbatim>\<open>throw\<close> is a value. \<open>InsufficientIntervals\<close> and
  \<open>UnsupportedStatistic\<close> are the two errors thrown in lib/step-scaling-policy.ts
  (the second carries the statistic printed in its message); \<open>AmbiguousOpenBoundary\<close>
  and \<open>GapOrOverlapDetected\<close> are the errors the specification gives to the
  normalizer. \<open>TypeError\<close> is what JavaScript throws when a field of
  \<^verbatim>\<open>intervals[i]\<close> is read with \<open>i\<close> out of range. \<open>NeutralZoneUndetermined\<close>
  marks the one case the specification leaves open (no interval has change 0).
\<close>

datatype error =
    InsufficientIntervals
  | AmbiguousOpenBoundary
  | GapOrOverlapDetected
  | UnsupportedStatistic string
  | TypeError
  | NeutralZoneUndetermined

subsection \<open>The interval normalizer, from the specification\<close>

text \<open>
  Modelled from the spec: \<^verbatim>\<open>normalizeIntervals\<close> of lib/interval-utils.ts is not
  among the sources. Section 4.1 of the specification gives its contract
  \<^verbatim>\<open>normalize(steps, absolute)\<close> in four steps, embedded one by one below
  (the name \<open>normalize\<close> belongs to a constant of the library, hence the suffix).
\<close>

text \<open>
  Modelled from the spec: the sort key of step 1, which sorts "by their defined boundary
  value (using lower if present, else upper, treating undefined as -infinity/+infinity as
  appropriate)". The key is a pair ordered lexicographically: \<open>(False, v)\<close> is the
  finite value \<open>v\<close>, \<open>(True, 0)\<close> is +infinity (an interval with neither bound:
  "else upper", which is open upwards).
\<close>

definition sortKey :: "ScalingInterval \<Rightarrow> bool \<times> real" where
  "sortKey s =
     (case lower s of
        Some l \<Rightarrow> (False, l)
      | None \<Rightarrow> (case upper s of Some u \<Rightarrow> (False, u) | None \<Rightarrow> (True, 0)))"

text \<open>
  Modelled from the spec: step 1, ascending, with "ties resolved by sort stability";
  \<open>sort_key\<close> is the stable insertion sort of the library.
\<close>

definition sortIntervals :: "ScalingInterval list \<Rightarrow> ScalingInterval list" where
  "sortIntervals steps = sort_key sortKey steps"

text \<open>
  Modelled from the spec: step 2, "if upper is missing, set it to the next interval's
  lower; if lower is missing, set it to the previous interval's upper". The first
  argument is the previous interval of the walk, if any; the first interval keeps an
  absent lower bound and the last an absent upper bound ("represented as absent in the
  output for the extremes"). A neighbour's bound that is itself absent fills nothing.
\<close>

fun fillBounds :: "ScalingInterval option \<Rightarrow> ScalingInterval list \<Rightarrow> NormalizedInterval list" where
  "fillBounds prev [] = []"
| "fillBounds prev (s # rest) =
     \<lparr> lower = (case lower s of
                  Some l \<Rightarrow> Some l
                | None \<Rightarrow> (case prev of None \<Rightarrow> None | Some p \<Rightarrow> upper p)),
       upper = (case upper s of
                  Some u \<Rightarrow> Some u
                | None \<Rightarrow> (case rest of [] \<Rightarrow> None | nx # _ \<Rightarrow> lower nx)),
       change = change s \<rparr> # fillBounds (Some s) rest"

text \<open>
  Modelled from the spec: the check of step 4, "each interval's upper equals the next
  interval's lower exactly" (\<^verbatim>\<open>===\<close>, under which two absent bounds are equal).
\<close>

fun contiguous :: "NormalizedInterval list \<Rightarrow> bool" where
  "contiguous (a # b # rest) = (upper a = lower b \<and> contiguous (b # rest))"
| "contiguous _ = True"


text \<open>
  Modelled from the spec: the number of intervals with an undefined lower bound; "if
  more than one interval has an open lower or open upper bound, this is a configuration
  error".
\<close>

definition openLowerCount :: "ScalingInterval list \<Rightarrow> nat" where
  "openLowerCount steps = length (filter (\<lambda>s. lower s = None) steps)"

text \<open>Modelled from the spec: the number of intervals with an undefined upper bound.\<close>

definition openUpperCount :: "ScalingInterval list \<Rightarrow> nat" where
  "openUpperCount steps = length (filter (\<lambda>s. upper s = None) steps)"

text \<open>
  Modelled from the spec: \<^verbatim>\<open>normalize(steps, absolute)\<close>, the validation of the
  open bounds followed by steps 1, 2 and 4. Step 3 is "a direct pass-through" for either
  value of the flag, so \<open>absolute\<close> does not occur on the right-hand side. The check
  for at least 2 intervals "lives in the caller".
\<close>

definition normalize_intervals :: "ScalingInterval list \<Rightarrow> bool \<Rightarrow> error + NormalizedInterval list" where
  "normalize_intervals steps absolute =
     (if 1 < openLowerCount steps \<or> 1 < openUpperCount steps then Inl AmbiguousOpenBoundary
      else
        let full = fillBounds None (sortIntervals steps)
        in if contiguous full then Inr full else Inl GapOrOverlapDetected)"

subsection \<open>The threshold deriver, from the specification\<close>

text \<open>
  Modelled from the spec: \<^verbatim>\<open>findAlarmThresholds\<close> of lib/interval-utils.ts is not
  among the sources. Section 4.2 of the specification gives its contract
  \<^verbatim>\<open>deriveThresholds(intervals)\<close>, embedded in the two definitions below.
\<close>

text \<open>
  Modelled from the spec: the index of the neutral interval, the "one neutral interval
  where change is zero"; the specification assumes there is exactly one, and the scan
  from the low end takes the first.
\<close>

fun neutralIndex :: "NormalizedInterval list \<Rightarrow> nat option" where
  "neutralIndex [] = None"
| "neutralIndex (s # rest) =
     (if change s = 0 then Some 0 else map_option Suc (neutralIndex rest))"

text \<open>
  Modelled from the spec: the lower alarm index is "the index of the interval immediately
  below the neutral zone, if one exists with non-zero change", the upper alarm index the
  one immediately above, under the same condition. Where no interval has change 0 the
  specification calls the behaviour underspecified; that case is the marker error
  \<open>NeutralZoneUndetermined\<close> and no property below depends on it.
\<close>

definition deriveThresholds :: "NormalizedInterval list \<Rightarrow> error + AlarmThresholdResult" where
  "deriveThresholds intervals =
     (case neutralIndex intervals of
        None \<Rightarrow> Inl NeutralZoneUndetermined
      | Some g \<Rightarrow>
          Inr \<lparr> lowerAlarmIntervalIndex =
                  (if 0 < g \<and> change (intervals ! (g - 1)) \<noteq> 0 then Some (g - 1) else None),
                upperAlarmIntervalIndex =
                  (if g + 1 < length intervals \<and> change (intervals ! (g + 1)) \<noteq> 0
                   then Some (g + 1) else None) \<rparr>)"

subsection \<open>Collaborators of the constructor\<close>

text \<open>
  Modelled from the spec: the enums of lib/step-scaling-action.ts, which is not among the
  sources; the specification lists the three adjustment types and the three aggregation
  types, and the constructor names \<open>ChangeInCapacity\<close>, \<open>ExactCapacity\<close> and all
  three members of \<open>MetricAggregationType\<close>.
\<close>

datatype AdjustmentType = ChangeInCapacity | PercentChangeInCapacity | ExactCapacity

datatype MetricAggregationType = Average | Minimum | Maximum

text \<open>
  Modelled from the spec: \<^verbatim>\<open>cloudwatch.ComparisonOperator\<close>, of a package outside
  the sources: the two operators the constructor names, and their strict counterparts.
\<close>

datatype ComparisonOperator =
    GreaterThanOrEqualToThreshold
  | GreaterThanThreshold
  | LessThanThreshold
  | LessThanOrEqualToThreshold

text \<open>
  Modelled from the spec: \<^verbatim>\<open>cloudwatch.Metric\<close> is a descriptor with a
  \<^verbatim>\<open>statistic\<close> and an aggregation period; \<^verbatim>\<open>metric.with({ periodSec })\<close>
  is the same metric with that period.
\<close>

record Metric =
  metricName :: string
  statistic :: string
  periodSec :: nat

text \<open>
  Modelled from the spec: \<^verbatim>\<open>metric.with({ periodSec: p })\<close>, "using a 60-second
  aggregation period on the source metric regardless of the metric's configured period".
\<close>

definition metric_with_periodSec :: "Metric \<Rightarrow> nat \<Rightarrow> Metric" where
  "metric_with_periodSec m p = m\<lparr>periodSec := p\<rparr>"

text \<open>
  The object passed to \<^verbatim>\<open>addAdjustment\<close>, with the three fields of the object
  literals in the two loops.
\<close>

record StepAdjustment =
  adjustment :: real
  lowerBound :: "jsnumber option"
  upperBound :: "jsnumber option"

text \<open>
  Modelled from the spec: \<^verbatim>\<open>StepScalingAction\<close> (lib/step-scaling-action.ts is not
  among the sources) keeps the properties it was constructed with and "an ordered list
  of StepAdjustment records"; \<^verbatim>\<open>addAdjustment\<close> appends to that list.
\<close>

record StepScalingAction =
  actionId :: string
  actionAdjustmentType :: "AdjustmentType option"
  actionCooldownSeconds :: "real option"
  metricAggregationType :: MetricAggregationType
  actionMinAdjustmentMagnitude :: "real option"
  actionAutoScalingGroup :: string
  adjustments :: "StepAdjustment list"

text \<open>Modelled from the spec: \<^verbatim>\<open>addAdjustment\<close> appends to the ordered list.\<close>

definition addAdjustment :: "StepScalingAction \<Rightarrow> StepAdjustment \<Rightarrow> StepScalingAction" where
  "addAdjustment action adj = action\<lparr>adjustments := adjustments action @ [adj]\<rparr>"

text \<open>
  Modelled from the spec: \<^verbatim>\<open>cloudwatch.Alarm\<close>, of a package outside the sources,
  is an "alarm descriptor (threshold, comparison direction, evaluation period,
  source-metric reference)"; it keeps the properties it was constructed with and the ids
  of the actions registered on it.
\<close>

record Alarm =
  alarmId :: string
  alarmMetric :: Metric
  alarmDescription :: string
  comparisonOperator :: ComparisonOperator
  evaluationPeriods :: nat
  threshold :: "real option"
  alarmActions :: "string list"

text \<open>Modelled from the spec: \<^verbatim>\<open>alarm.onAlarm(action)\<close> registers the action.\<close>

definition onAlarm :: "Alarm \<Rightarrow> StepScalingAction \<Rightarrow> Alarm" where
  "onAlarm alarm action = alarm\<lparr>alarmActions := alarmActions alarm @ [actionId action]\<rparr>"

subsection \<open>lib/step-scaling-policy.ts\<close>

record BasicStepScalingPolicyProps =
  metric :: Metric
  scalingSteps :: "ScalingInterval list"
  adjustmentType :: "AdjustmentType option"
  cooldownSeconds :: "real option"
  estimatedInstanceWarmupSeconds :: "real option"
  minAdjustmentMagnitude :: "real option"

record StepScalingPolicyProps = BasicStepScalingPolicyProps +
  autoScalingGroup :: string

record StepScalingPolicy =
  lowerAlarm :: "Alarm option"
  lowerAction :: "StepScalingAction option"
  upperAlarm :: "Alarm option"
  upperAction :: "StepScalingAction option"

definition aggregationTypeFromMetric :: "Metric \<Rightarrow> error + MetricAggregationType" where
  "aggregationTypeFromMetric m =
     (if statistic m = ''Average'' then Inr Average
      else if statistic m = ''Minimum'' then Inr Minimum
      else if statistic m = ''Maximum'' then Inr Maximum
      else Inl (UnsupportedStatistic (statistic m)))"

text \<open>The object literal of the lower loop, at index \<open>i\<close>.\<close>

definition lowerStep :: "NormalizedInterval list \<Rightarrow> real option \<Rightarrow> nat \<Rightarrow> StepAdjustment" where
  "lowerStep intervals thr i =
     \<lparr> adjustment = change (intervals ! i),
       lowerBound = (if i \<noteq> 0 then Some (jsminus (lower (intervals ! i)) thr) else None),
       upperBound = Some (jsminus (upper (intervals ! i)) thr) \<rparr>"

text \<open>The object literal of the upper loop, at index \<open>i\<close>.\<close>

definition upperStep :: "NormalizedInterval list \<Rightarrow> real option \<Rightarrow> nat \<Rightarrow> StepAdjustment" where
  "upperStep intervals thr i =
     \<lparr> adjustment = change (intervals ! i),
       lowerBound = Some (jsminus (lower (intervals ! i)) thr),
       upperBound = (if i \<noteq> length intervals - 1
                     then Some (jsminus (upper (intervals ! i)) thr) else None) \<rparr>"

text \<open>
  \<^verbatim>\<open>for (let i = alarms.lowerAlarmIntervalIndex; i >= 0; i--)\<close>: the body runs at
  \<open>i\<close>, then the loop goes on at \<open>i - 1\<close> and stops after index 0.
\<close>

primrec lowerLoop :: "NormalizedInterval list \<Rightarrow> real option \<Rightarrow> nat \<Rightarrow> StepScalingAction \<Rightarrow> StepScalingAction" where
  "lowerLoop intervals thr 0 action = addAdjustment action (lowerStep intervals thr 0)"
| "lowerLoop intervals thr (Suc i) action =
     lowerLoop intervals thr i (addAdjustment action (lowerStep intervals thr (Suc i)))"

text \<open>\<^verbatim>\<open>for (let i = alarms.upperAlarmIntervalIndex; i < intervals.length; i++)\<close>.\<close>

function upperLoop :: "NormalizedInterval list \<Rightarrow> real option \<Rightarrow> nat \<Rightarrow> StepScalingAction \<Rightarrow> StepScalingAction" where
  "upperLoop intervals thr i action =
     (if i < length intervals
      then upperLoop intervals thr (Suc i) (addAdjustment action (upperStep intervals thr i))
      else action)"
  by pat_completeness auto
termination
  by (relation "measure (\<lambda>(intervals, thr, i, action). length intervals - i)") auto

declare upperLoop.simps [simp del]

text \<open>
  The body of \<^verbatim>\<open>if (alarms.lowerAlarmIntervalIndex !== undefined)\<close>. Reading
  \<^verbatim>\<open>intervals[index].upper\<close> throws when the index is out of range; in the loop
  every index is at most the alarm index, hence in range. The properties of the action
  are evaluated, \<^verbatim>\<open>aggregationTypeFromMetric\<close> among them, before the action exists.
\<close>

definition lowerBranch ::
  "StepScalingPolicyProps \<Rightarrow> NormalizedInterval list \<Rightarrow> AlarmThresholdResult
     \<Rightarrow> error + (Alarm option \<times> StepScalingAction option)" where
  "lowerBranch props intervals alarms =
     (case lowerAlarmIntervalIndex alarms of
        None \<Rightarrow> Inr (None, None)
      | Some index \<Rightarrow>
          if length intervals \<le> index then Inl TypeError
          else
            let thr = upper (intervals ! index)
            in (case aggregationTypeFromMetric (metric props) of
                 Inl e \<Rightarrow> Inl e
               | Inr aggregation \<Rightarrow>
                   let created =
                         \<lparr> actionId = ''LowerPolicy'',
                           actionAdjustmentType = adjustmentType props,
                           actionCooldownSeconds = cooldownSeconds props,
                           metricAggregationType = aggregation,
                           actionMinAdjustmentMagnitude = minAdjustmentMagnitude props,
                           actionAutoScalingGroup = autoScalingGroup props,
                           adjustments = [] \<rparr>;
                       action = lowerLoop intervals thr index created;
                       raised =
                         \<lparr> alarmId = ''LowerAlarm'',
                           alarmMetric = metric_with_periodSec (metric props) 60,
                           alarmDescription = ''Lower threshold scaling alarm'',
                           comparisonOperator = LessThanOrEqualToThreshold,
                           evaluationPeriods = 1,
                           threshold = thr,
                           alarmActions = [] \<rparr>;
                       alarm = onAlarm raised action
                   in Inr (Some alarm, Some action)))"

text \<open>The body of \<^verbatim>\<open>if (alarms.upperAlarmIntervalIndex !== undefined)\<close>.\<close>

definition upperBranch ::
  "StepScalingPolicyProps \<Rightarrow> NormalizedInterval list \<Rightarrow> AlarmThresholdResult
     \<Rightarrow> error + (Alarm option \<times> StepScalingAction option)" where
  "upperBranch props intervals alarms =
     (case upperAlarmIntervalIndex alarms of
        None \<Rightarrow> Inr (None, None)
      | Some index \<Rightarrow>
          if length intervals \<le> index then Inl TypeError
          else
            let thr = lower (intervals ! index)
            in (case aggregationTypeFromMetric (metric props) of
                 Inl e \<Rightarrow> Inl e
               | Inr aggregation \<Rightarrow>
                   let created =
                         \<lparr> actionId = ''UpperPolicy'',
                           actionAdjustmentType = adjustmentType props,
                           actionCooldownSeconds = cooldownSeconds props,
                           metricAggregationType = aggregation,
                           actionMinAdjustmentMagnitude = minAdjustmentMagnitude props,
                           actionAutoScalingGroup = autoScalingGroup props,
                           adjustments = [] \<rparr>;
                       action = upperLoop intervals thr index created;
                       raised =
                         \<lparr> alarmId = ''UpperAlarm'',
                           alarmMetric = metric_with_periodSec (metric props) 60,
                           alarmDescription = ''Upper threshold scaling alarm'',
                           comparisonOperator = GreaterThanOrEqualToThreshold,
                           evaluationPeriods = 1,
                           threshold = thr,
                           alarmActions = [] \<rparr>;
                       alarm = onAlarm raised action
                   in Inr (Some alarm, Some action)))"

text \<open>
  \<^verbatim>\<open>props.adjustmentType || AdjustmentType.ChangeInCapacity\<close> and the comparison
  with \<^verbatim>\<open>ExactCapacity\<close>, the two constants computed before normalization.
\<close>

definition changesAreAbsolute :: "AdjustmentType option \<Rightarrow> bool" where
  "changesAreAbsolute t =
     (let adjustmentType = (case t of None \<Rightarrow> ChangeInCapacity | Some a \<Rightarrow> a)
      in adjustmentType = ExactCapacity)"

text \<open>
  The constructor. Its first two arguments stand for the imported
  \<^verbatim>\<open>normalizeIntervals\<close> and \<^verbatim>\<open>findAlarmThresholds\<close>; either may throw. The
  construct tree (\<^verbatim>\<open>super(parent, id)\<close>) is not part of the model.
\<close>

definition StepScalingPolicy ::
  "(ScalingInterval list \<Rightarrow> bool \<Rightarrow> error + NormalizedInterval list)
     \<Rightarrow> (NormalizedInterval list \<Rightarrow> error + AlarmThresholdResult)
     \<Rightarrow> StepScalingPolicyProps \<Rightarrow> error + StepScalingPolicy" where
  "StepScalingPolicy normalizeIntervals findAlarmThresholds props =
     (if length (scalingSteps props) < 2 then Inl InsufficientIntervals
      else
        case normalizeIntervals (scalingSteps props) (changesAreAbsolute (adjustmentType props)) of
          Inl e \<Rightarrow> Inl e
        | Inr intervals \<Rightarrow>
            (case findAlarmThresholds intervals of
               Inl e \<Rightarrow> Inl e
             | Inr alarms \<Rightarrow>
                 (case lowerBranch props intervals alarms of
                    Inl e \<Rightarrow> Inl e
                  | Inr (la, lact) \<Rightarrow>
                      (case upperBranch props intervals alarms of
                         Inl e \<Rightarrow> Inl e
                       | Inr (ua, uact) \<Rightarrow>
                           Inr \<lparr> lowerAlarm = la, lowerAction = lact,
                                 upperAlarm = ua, upperAction = uact \<rparr>))))"

text \<open>
  The policy with the adjustment type recorded in its actions replaced by \<open>t\<close>: the
  constructor forwards \<^verbatim>\<open>props.adjustmentType\<close> to both actions as it was given,
  not the defaulted constant.
\<close>

definition forwardedType :: "AdjustmentType option \<Rightarrow> StepScalingPolicy \<Rightarrow> StepScalingPolicy" where
  "forwardedType t pol =
     pol\<lparr> lowerAction := map_option (\<lambda>a. a\<lparr>actionAdjustmentType := t\<rparr>) (lowerAction pol),
          upperAction := map_option (\<lambda>a. a\<lparr>actionAdjustmentType := t\<rparr>) (upperAction pol) \<rparr>"

subsection \<open>Concrete inputs\<close>

text \<open>The three intervals of the specification's example.\<close>

definition exampleMetric :: Metric where
  "exampleMetric = \<lparr> metricName = ''CPUUtilization'', statistic = ''Average'', periodSec = 300 \<rparr>"

definition exampleSteps :: "ScalingInterval list" where
  "exampleSteps =
     [\<lparr> lower = None, upper = Some 10, change = - 1 \<rparr>,
      \<lparr> lower = Some 10, upper = Some 50, change = 0 \<rparr>,
      \<lparr> lower = Some 50, upper = None, change = 1 \<rparr>]"

definition exampleProps :: StepScalingPolicyProps where
  "exampleProps =
     \<lparr> metric = exampleMetric, scalingSteps = exampleSteps,
       adjustmentType = Some ChangeInCapacity, cooldownSeconds = None,
       estimatedInstanceWarmupSeconds = None, minAdjustmentMagnitude = None,
       autoScalingGroup = ''ASG'' \<rparr>"

text \<open>The example with a percentile statistic, and with a single interval.\<close>

definition p99Props :: StepScalingPolicyProps where
  "p99Props = exampleProps\<lparr> metric := exampleMetric\<lparr> statistic := ''p99'' \<rparr> \<rparr>"

definition singleProps :: StepScalingPolicyProps where
  "singleProps =
     exampleProps\<lparr> scalingSteps := [\<lparr> lower = None, upper = Some 10, change = - 1 \<rparr>] \<rparr>"

text \<open>Two intervals that never change the capacity, under a percentile statistic.\<close>

definition quietProps :: StepScalingPolicyProps where
  "quietProps =
     \<lparr> metric = \<lparr> metricName = ''CPUUtilization'', statistic = ''p99'', periodSec = 300 \<rparr>,
       scalingSteps =
         [\<lparr> lower = None, upper = Some 10, change = 0 \<rparr>,
          \<lparr> lower = Some 10, upper = None, change = 0 \<rparr>],
       adjustmentType = None, cooldownSeconds = None,
       estimatedInstanceWarmupSeconds = None, minAdjustmentMagnitude = None,
       autoScalingGroup = ''ASG'' \<rparr>"

text \<open>
  Five intervals, two on each side of the neutral one, with the adjustment type
  omitted, and the policy the constructor builds from them.
\<close>

definition fiveSteps :: "ScalingInterval list" where
  "fiveSteps =
     [\<lparr> lower = None, upper = Some 10, change = - 2 \<rparr>,
      \<lparr> lower = Some 10, upper = Some 20, change = - 1 \<rparr>,
      \<lparr> lower = Some 20, upper = Some 50, change = 0 \<rparr>,
      \<lparr> lower = Some 50, upper = Some 70, change = 1 \<rparr>,
      \<lparr> lower = Some 70, upper = None, change = 2 \<rparr>]"

definition fiveProps :: StepScalingPolicyProps where
  "fiveProps =
     \<lparr> metric = exampleMetric, scalingSteps = fiveSteps,
       adjustmentType = None, cooldownSeconds = Some 120,
       estimatedInstanceWarmupSeconds = None, minAdjustmentMagnitude = None,
       autoScalingGroup = ''ASG'' \<rparr>"

definition fiveAlarms :: AlarmThresholdResult where
  "fiveAlarms = \<lparr> lowerAlarmIntervalIndex = Some 1, upperAlarmIntervalIndex = Some 3 \<rparr>"

definition fivePolicy :: StepScalingPolicy where
  "fivePolicy =
     \<lparr> lowerAlarm = Some
         \<lparr> alarmId = ''LowerAlarm'',
           alarmMetric =
             \<lparr> metricName = ''CPUUtilization'', statistic = ''Average'', periodSec = 60 \<rparr>,
           alarmDescription = ''Lower threshold scaling alarm'',
           comparisonOperator = LessThanOrEqualToThreshold,
           evaluationPeriods = 1, threshold = Some 20,
           alarmActions = [''LowerPolicy''] \<rparr>,
       lowerAction = Some
         \<lparr> actionId = ''LowerPolicy'', actionAdjustmentType = None,
           actionCooldownSeconds = Some 120, metricAggregationType = Average,
           actionMinAdjustmentMagnitude = None, actionAutoScalingGroup = ''ASG'',
           adjustments =
             [\<lparr> adjustment = - 1, lowerBound = Some (Num (- 10)), upperBound = Some (Num 0) \<rparr>,
              \<lparr> adjustment = - 2, lowerBound = None, upperBound = Some (Num (- 10)) \<rparr>] \<rparr>,
       upperAlarm = Some
         \<lparr> alarmId = ''UpperAlarm'',
           alarmMetric =
             \<lparr> metricName = ''CPUUtilization'', statistic = ''Average'', periodSec = 60 \<rparr>,
           alarmDescription = ''Upper threshold scaling alarm'',
           comparisonOperator = GreaterThanOrEqualToThreshold,
           evaluationPeriods = 1, threshold = Some 50,
           alarmActions = [''UpperPolicy''] \<rparr>,
       upperAction = Some
         \<lparr> actionId = ''UpperPolicy'', actionAdjustmentType = None,
           actionCooldownSeconds = Some 120, metricAggregationType = Average,
           actionMinAdjustmentMagnitude = None, actionAutoScalingGroup = ''ASG'',
           adjustments =
             [\<lparr> adjustment = 1, lowerBound = Some (Num 0), upperBound = Some (Num 20) \<rparr>,
              \<lparr> adjustment = 2, lowerBound = Some (Num 20), upperBound = None \<rparr>] \<rparr> \<rparr>"

text \<open>The five-interval policy with \<open>ChangeInCapacity\<close> recorded in both actions.\<close>

definition fivePolicyChange :: StepScalingPolicy where
  "fivePolicyChange = forwardedType (Some ChangeInCapacity) fivePolicy"







section \<open>Properties\<close>

subsection \<open>The two loops in closed form\<close>

lemma lowerLoop_adjustments:
  "lowerLoop intervals thr i action =
     action\<lparr>adjustments := adjustments action @ map (lowerStep intervals thr) (rev [0..<Suc i])\<rparr>"
  by (induction i arbitrary: action) (simp_all add: addAdjustment_def)

lemma upperLoop_adjustments:
  "upperLoop intervals thr i action =
     action\<lparr>adjustments := adjustments action @ map (upperStep intervals thr) [i..<length intervals]\<rparr>"
proof (induction intervals thr i action rule: upperLoop.induct)
  case (1 intervals thr i action)
  show ?case
  proof (cases "i < length intervals")
    case True
    then show ?thesis
      using "1.IH" [OF True]
      by (subst upperLoop.simps) (simp add: addAdjustment_def upt_conv_Cons)
  next
    case False
    then show ?thesis
      by (subst upperLoop.simps) simp
  qed
qed

lemma nth_rev_upt_Suc: "k \<le> i \<Longrightarrow> rev [0..<Suc i] ! k = i - k"
  by (simp add: rev_nth del: upt_Suc)

subsection \<open>What a successful construction went through\<close>

lemma aggregationTypeFromMetric_Inl:
  "statistic m \<notin> {''Average'', ''Minimum'', ''Maximum''} \<Longrightarrow>
     aggregationTypeFromMetric m = Inl (UnsupportedStatistic (statistic m))"
  by (simp add: aggregationTypeFromMetric_def)

lemma lowerBranch_None:
  "lowerAlarmIntervalIndex alarms = None \<Longrightarrow> lowerBranch props intervals alarms = Inr (None, None)"
  by (simp add: lowerBranch_def)

lemma upperBranch_None:
  "upperAlarmIntervalIndex alarms = None \<Longrightarrow> upperBranch props intervals alarms = Inr (None, None)"
  by (simp add: upperBranch_def)

lemma lowerBranch_Inr:
  assumes "lowerBranch props intervals alarms = Inr (la, lact)"
      and "lowerAlarmIntervalIndex alarms = Some index"
  shows "index < length intervals \<and>
         (\<exists>aggregation. aggregationTypeFromMetric (metric props) = Inr aggregation \<and>
            lact = Some \<lparr> actionId = ''LowerPolicy'',
                           actionAdjustmentType = adjustmentType props,
                           actionCooldownSeconds = cooldownSeconds props,
                           metricAggregationType = aggregation,
                           actionMinAdjustmentMagnitude = minAdjustmentMagnitude props,
                           actionAutoScalingGroup = autoScalingGroup props,
                           adjustments = map (lowerStep intervals (upper (intervals ! index)))
                                             (rev [0..<Suc index]) \<rparr>) \<and>
         la = Some \<lparr> alarmId = ''LowerAlarm'',
                     alarmMetric = metric_with_periodSec (metric props) 60,
                     alarmDescription = ''Lower threshold scaling alarm'',
                     comparisonOperator = LessThanOrEqualToThreshold,
                     evaluationPeriods = 1,
                     threshold = upper (intervals ! index),
                     alarmActions = [''LowerPolicy''] \<rparr>"
  using assms
  by (auto simp: lowerBranch_def Let_def lowerLoop_adjustments onAlarm_def
           split: if_splits sum.splits)

lemma upperBranch_Inr:
  assumes "upperBranch props intervals alarms = Inr (ua, uact)"
      and "upperAlarmIntervalIndex alarms = Some index"
  shows "index < length intervals \<and>
         (\<exists>aggregation. aggregationTypeFromMetric (metric props) = Inr aggregation \<and>
            uact = Some \<lparr> actionId = ''UpperPolicy'',
                           actionAdjustmentType = adjustmentType props,
                           actionCooldownSeconds = cooldownSeconds props,
                           metricAggregationType = aggregation,
                           actionMinAdjustmentMagnitude = minAdjustmentMagnitude props,
                           actionAutoScalingGroup = autoScalingGroup props,
                           adjustments = map (upperStep intervals (lower (intervals ! index)))
                                             [index..<length intervals] \<rparr>) \<and>
         ua = Some \<lparr> alarmId = ''UpperAlarm'',
                     alarmMetric = metric_with_periodSec (metric props) 60,
                     alarmDescription = ''Upper threshold scaling alarm'',
                     comparisonOperator = GreaterThanOrEqualToThreshold,
                     evaluationPeriods = 1,
                     threshold = lower (intervals ! index),
                     alarmActions = [''UpperPolicy''] \<rparr>"
  using assms
  by (auto simp: upperBranch_def Let_def upperLoop_adjustments onAlarm_def
           split: if_splits sum.splits)

lemma StepScalingPolicy_Inr:
  assumes "StepScalingPolicy normalizeIntervals findAlarmThresholds props = Inr pol"
  shows "2 \<le> length (scalingSteps props) \<and>
         (\<exists>intervals alarms.
            normalizeIntervals (scalingSteps props) (changesAreAbsolute (adjustmentType props))
              = Inr intervals \<and>
            findAlarmThresholds intervals = Inr alarms \<and>
            lowerBranch props intervals alarms = Inr (lowerAlarm pol, lowerAction pol) \<and>
            upperBranch props intervals alarms = Inr (upperAlarm pol, upperAction pol))"
  using assms
  by (auto simp: StepScalingPolicy_def split: if_splits sum.splits prod.splits)

subsection \<open>The concrete inputs, evaluated\<close>

lemma normalize_exampleSteps: "normalize_intervals exampleSteps absolute = Inr exampleSteps"
  by (simp add: normalize_intervals_def exampleSteps_def openLowerCount_def openUpperCount_def
        sortIntervals_def sortKey_def)

lemma deriveThresholds_exampleSteps:
  "deriveThresholds exampleSteps =
     Inr \<lparr> lowerAlarmIntervalIndex = Some 0, upperAlarmIntervalIndex = Some 2 \<rparr>"
  by (simp add: deriveThresholds_def exampleSteps_def)

lemma normalize_fiveProps:
  "normalize_intervals (scalingSteps fiveProps) (changesAreAbsolute (adjustmentType fiveProps))
     = Inr fiveSteps"
  by code_simp

lemma deriveThresholds_fiveSteps: "deriveThresholds fiveSteps = Inr fiveAlarms"
  by code_simp

lemma construct_fiveProps:
  "StepScalingPolicy normalize_intervals deriveThresholds fiveProps = Inr fivePolicy"
  by code_simp

subsection \<open>Fewer than two intervals\<close>

text \<open>
  C8: for every input with fewer than 2 scaling intervals (in particular exactly 1),
  constructing the policy raises the error "You must supply at least 2 intervals for
  autoscaling", and it does so before any normalization: the result is that error
  whatever the normalizer and the threshold finder are or would return, so that no
  alarm and no action is produced.
\<close>

theorem C8_insufficient_intervals:
  assumes "length (scalingSteps props) < 2"
  shows "StepScalingPolicy normalizeIntervals findAlarmThresholds props = Inl InsufficientIntervals"
  using assms by (simp add: StepScalingPolicy_def)

text \<open>The example reduced to its first interval.\<close>

theorem C8_single_interval_witness:
  "length (scalingSteps singleProps) < 2 \<and>
   StepScalingPolicy normalize_intervals deriveThresholds singleProps = Inl InsufficientIntervals"
proof -
  have one: "length (scalingSteps singleProps) < 2"
    by (simp add: singleProps_def)
  from one C8_insufficient_intervals [OF one] show ?thesis ..
qed

subsection \<open>The settings of the alarms\<close>

text \<open>
  C9: every alarm the policy creates uses exactly one evaluation period, the comparison
  operator \<open>LessThanOrEqualToThreshold\<close> for the lower alarm and
  \<open>GreaterThanOrEqualToThreshold\<close> for the upper alarm, and the source metric with
  its aggregation period set to 60 seconds, whatever period the metric was configured
  with.
\<close>

theorem C9_alarm_settings:
  assumes "StepScalingPolicy normalizeIntervals findAlarmThresholds props = Inr pol"
  shows "(\<forall>a. lowerAlarm pol = Some a \<longrightarrow>
            evaluationPeriods a = 1 \<and>
            comparisonOperator a = LessThanOrEqualToThreshold \<and>
            alarmMetric a = (metric props)\<lparr>periodSec := 60\<rparr> \<and>
            periodSec (alarmMetric a) = 60) \<and>
         (\<forall>a. upperAlarm pol = Some a \<longrightarrow>
            evaluationPeriods a = 1 \<and>
            comparisonOperator a = GreaterThanOrEqualToThreshold \<and>
            alarmMetric a = (metric props)\<lparr>periodSec := 60\<rparr> \<and>
            periodSec (alarmMetric a) = 60)"
proof -
  from StepScalingPolicy_Inr [OF assms] obtain intervals alarms where
    lo: "lowerBranch props intervals alarms = Inr (lowerAlarm pol, lowerAction pol)" and
    up: "upperBranch props intervals alarms = Inr (upperAlarm pol, upperAction pol)"
    by blast
  have "evaluationPeriods a = 1 \<and> comparisonOperator a = LessThanOrEqualToThreshold \<and>
        alarmMetric a = (metric props)\<lparr>periodSec := 60\<rparr> \<and> periodSec (alarmMetric a) = 60"
    if "lowerAlarm pol = Some a" for a
  proof (cases "lowerAlarmIntervalIndex alarms")
    case None
    with lo that show ?thesis by (simp add: lowerBranch_None)
  next
    case (Some index)
    from lowerBranch_Inr [OF lo Some] that show ?thesis
      by (auto simp: metric_with_periodSec_def)
  qed
  moreover
  have "evaluationPeriods a = 1 \<and> comparisonOperator a = GreaterThanOrEqualToThreshold \<and>
        alarmMetric a = (metric props)\<lparr>periodSec := 60\<rparr> \<and> periodSec (alarmMetric a) = 60"
    if "upperAlarm pol = Some a" for a
  proof (cases "upperAlarmIntervalIndex alarms")
    case None
    with up that show ?thesis by (simp add: upperBranch_None)
  next
    case (Some index)
    from upperBranch_Inr [OF up Some] that show ?thesis
      by (auto simp: metric_with_periodSec_def)
  qed
  ultimately show ?thesis by blast
qed

text \<open>The five-interval policy: its metric is configured with a period of 300 seconds.\<close>

theorem C9_five_intervals_witness:
  "StepScalingPolicy normalize_intervals deriveThresholds fiveProps = Inr fivePolicy \<and>
   periodSec (metric fiveProps) = 300 \<and>
   (\<exists>a. lowerAlarm fivePolicy = Some a \<and> evaluationPeriods a = 1 \<and>
         comparisonOperator a = LessThanOrEqualToThreshold \<and> periodSec (alarmMetric a) = 60) \<and>
   (\<exists>a. upperAlarm fivePolicy = Some a \<and> evaluationPeriods a = 1 \<and>
         comparisonOperator a = GreaterThanOrEqualToThreshold \<and> periodSec (alarmMetric a) = 60)"
proof -
  have lo: "\<exists>a. lowerAlarm fivePolicy = Some a"
    by (simp add: fivePolicy_def)
  have up: "\<exists>a. upperAlarm fivePolicy = Some a"
    by (simp add: fivePolicy_def)
  have period: "periodSec (metric fiveProps) = 300"
    by (simp add: fiveProps_def exampleMetric_def)
  from C9_alarm_settings [OF construct_fiveProps] lo up period construct_fiveProps
  show ?thesis by blast
qed

subsection \<open>Thresholds\<close>

text \<open>
  C3: whenever \<open>lowerAlarmIntervalIndex\<close> is defined, the lower alarm's threshold
  equals the upper bound of the interval at that index; whenever
  \<open>upperAlarmIntervalIndex\<close> is defined, the upper alarm's threshold equals the lower
  bound of the interval at that index. Stated of every construction that returns a
  policy, for the intervals and the indices its normalizer and threshold finder returned;
  the index is then within the intervals and the alarm exists.
\<close>

theorem C3_alarm_thresholds:
  assumes "StepScalingPolicy normalizeIntervals findAlarmThresholds props = Inr pol"
      and "normalizeIntervals (scalingSteps props) (changesAreAbsolute (adjustmentType props))
             = Inr intervals"
      and "findAlarmThresholds intervals = Inr alarms"
  shows "(\<forall>i. lowerAlarmIntervalIndex alarms = Some i \<longrightarrow>
            i < length intervals \<and>
            (\<exists>a. lowerAlarm pol = Some a \<and> threshold a = upper (intervals ! i))) \<and>
         (\<forall>i. upperAlarmIntervalIndex alarms = Some i \<longrightarrow>
            i < length intervals \<and>
            (\<exists>a. upperAlarm pol = Some a \<and> threshold a = lower (intervals ! i)))"
proof -
  from StepScalingPolicy_Inr [OF assms(1)] assms(2,3) have
    lo: "lowerBranch props intervals alarms = Inr (lowerAlarm pol, lowerAction pol)" and
    up: "upperBranch props intervals alarms = Inr (upperAlarm pol, upperAction pol)"
    by auto
  show ?thesis
    using lowerBranch_Inr [OF lo] upperBranch_Inr [OF up] by auto
qed

text \<open>
  The five-interval policy: the lower alarm sits on the upper bound of interval 1, the
  upper alarm on the lower bound of interval 3.
\<close>

theorem C3_five_intervals_witness:
  "StepScalingPolicy normalize_intervals deriveThresholds fiveProps = Inr fivePolicy \<and>
   normalize_intervals (scalingSteps fiveProps) (changesAreAbsolute (adjustmentType fiveProps))
     = Inr fiveSteps \<and>
   deriveThresholds fiveSteps = Inr fiveAlarms \<and>
   lowerAlarmIntervalIndex fiveAlarms = Some 1 \<and>
   (\<exists>a. lowerAlarm fivePolicy = Some a \<and> threshold a = upper (fiveSteps ! 1)) \<and>
   upper (fiveSteps ! 1) = Some 20 \<and>
   upperAlarmIntervalIndex fiveAlarms = Some 3 \<and>
   (\<exists>a. upperAlarm fivePolicy = Some a \<and> threshold a = lower (fiveSteps ! 3)) \<and>
   lower (fiveSteps ! 3) = Some 50"
proof -
  have lo: "lowerAlarmIntervalIndex fiveAlarms = Some 1"
    and up: "upperAlarmIntervalIndex fiveAlarms = Some 3"
    by (simp_all add: fiveAlarms_def)
  have bounds: "upper (fiveSteps ! 1) = Some 20" "lower (fiveSteps ! 3) = Some 50"
    by (simp_all add: fiveSteps_def)
  from C3_alarm_thresholds [OF construct_fiveProps normalize_fiveProps deriveThresholds_fiveSteps]
    lo up bounds construct_fiveProps normalize_fiveProps deriveThresholds_fiveSteps
  show ?thesis by blast
qed

subsection \<open>Step tables\<close>

text \<open>
  C2: for every derived alarm direction, the emitted step table contains one
  \<open>StepAdjustment\<close> per interval walked from the threshold interval outward (entry
  \<open>k\<close> of the lower table is interval \<open>index - k\<close>, entry \<open>k\<close> of the upper
  table is interval \<open>index + k\<close>), whose adjustment equals the interval's change and
  whose bounds equal the interval's normalized bounds minus that direction's threshold
  value, except that the outermost \<open>StepAdjustment\<close> of each table (interval 0, the
  last interval) has its outward bound undefined whatever its numeric value. The bound of
  the threshold interval adjacent to neutral, the first entry's, is therefore 0; this
  consequence is about a threshold that is a number (the difference of an absent bound
  with itself is \<open>NaN\<close>).
\<close>

theorem C2_step_tables:
  assumes "StepScalingPolicy normalizeIntervals findAlarmThresholds props = Inr pol"
      and "normalizeIntervals (scalingSteps props) (changesAreAbsolute (adjustmentType props))
             = Inr intervals"
      and "findAlarmThresholds intervals = Inr alarms"
  shows "(\<forall>index. lowerAlarmIntervalIndex alarms = Some index \<longrightarrow>
            (\<exists>alarm action.
               lowerAlarm pol = Some alarm \<and> lowerAction pol = Some action \<and>
               length (adjustments action) = index + 1 \<and>
               (\<forall>k\<le>index.
                  adjustment (adjustments action ! k) = change (intervals ! (index - k)) \<and>
                  upperBound (adjustments action ! k)
                    = Some (jsminus (upper (intervals ! (index - k))) (threshold alarm)) \<and>
                  lowerBound (adjustments action ! k)
                    = (if k = index then None
                       else Some (jsminus (lower (intervals ! (index - k))) (threshold alarm)))) \<and>
               (threshold alarm \<noteq> None \<longrightarrow>
                  upperBound (adjustments action ! 0) = Some (Num 0)))) \<and>
         (\<forall>index. upperAlarmIntervalIndex alarms = Some index \<longrightarrow>
            (\<exists>alarm action.
               upperAlarm pol = Some alarm \<and> upperAction pol = Some action \<and>
               index < length intervals \<and>
               length (adjustments action) = length intervals - index \<and>
               (\<forall>k<length intervals - index.
                  adjustment (adjustments action ! k) = change (intervals ! (index + k)) \<and>
                  lowerBound (adjustments action ! k)
                    = Some (jsminus (lower (intervals ! (index + k))) (threshold alarm)) \<and>
                  upperBound (adjustments action ! k)
                    = (if k = length intervals - index - 1 then None
                       else Some (jsminus (upper (intervals ! (index + k))) (threshold alarm)))) \<and>
               (threshold alarm \<noteq> None \<longrightarrow>
                  lowerBound (adjustments action ! 0) = Some (Num 0))))"
proof -
  from StepScalingPolicy_Inr [OF assms(1)] assms(2,3) have
    lo: "lowerBranch props intervals alarms = Inr (lowerAlarm pol, lowerAction pol)" and
    up: "upperBranch props intervals alarms = Inr (upperAlarm pol, upperAction pol)"
    by auto
  have lower_part: "\<exists>alarm action.
               lowerAlarm pol = Some alarm \<and> lowerAction pol = Some action \<and>
               length (adjustments action) = index + 1 \<and>
               (\<forall>k\<le>index.
                  adjustment (adjustments action ! k) = change (intervals ! (index - k)) \<and>
                  upperBound (adjustments action ! k)
                    = Some (jsminus (upper (intervals ! (index - k))) (threshold alarm)) \<and>
                  lowerBound (adjustments action ! k)
                    = (if k = index then None
                       else Some (jsminus (lower (intervals ! (index - k))) (threshold alarm)))) \<and>
               (threshold alarm \<noteq> None \<longrightarrow>
                  upperBound (adjustments action ! 0) = Some (Num 0))"
    if idx: "lowerAlarmIntervalIndex alarms = Some index" for index
  proof -
    from lowerBranch_Inr [OF lo idx] obtain alarm action where
      a: "lowerAlarm pol = Some alarm" "threshold alarm = upper (intervals ! index)" and
      b: "lowerAction pol = Some action"
         "adjustments action
            = map (lowerStep intervals (upper (intervals ! index))) (rev [0..<Suc index])"
      by auto
    have len: "length (adjustments action) = index + 1"
      using b(2) by simp
    have entry: "adjustments action ! k = lowerStep intervals (threshold alarm) (index - k)"
      if "k \<le> index" for k
      using that b(2) a(2) by (simp add: nth_rev_upt_Suc del: upt_Suc)
    have zero: "upperBound (adjustments action ! 0) = Some (Num 0)" if "threshold alarm \<noteq> None"
      using that entry [of 0] a(2) by (auto simp: lowerStep_def)
    show ?thesis
      using a(1) b(1) len entry zero by (auto simp: lowerStep_def)
  qed
  have upper_part: "\<exists>alarm action.
               upperAlarm pol = Some alarm \<and> upperAction pol = Some action \<and>
               index < length intervals \<and>
               length (adjustments action) = length intervals - index \<and>
               (\<forall>k<length intervals - index.
                  adjustment (adjustments action ! k) = change (intervals ! (index + k)) \<and>
                  lowerBound (adjustments action ! k)
                    = Some (jsminus (lower (intervals ! (index + k))) (threshold alarm)) \<and>
                  upperBound (adjustments action ! k)
                    = (if k = length intervals - index - 1 then None
                       else Some (jsminus (upper (intervals ! (index + k))) (threshold alarm)))) \<and>
               (threshold alarm \<noteq> None \<longrightarrow>
                  lowerBound (adjustments action ! 0) = Some (Num 0))"
    if idx: "upperAlarmIntervalIndex alarms = Some index" for index
  proof -
    from upperBranch_Inr [OF up idx] obtain alarm action where
      r: "index < length intervals" and
      a: "upperAlarm pol = Some alarm" "threshold alarm = lower (intervals ! index)" and
      b: "upperAction pol = Some action"
         "adjustments action
            = map (upperStep intervals (lower (intervals ! index))) [index..<length intervals]"
      by auto
    have len: "length (adjustments action) = length intervals - index"
      using b(2) by simp
    have entry: "adjustments action ! k = upperStep intervals (threshold alarm) (index + k)"
      if "k < length intervals - index" for k
      using that b(2) a(2) by simp
    have zero: "lowerBound (adjustments action ! 0) = Some (Num 0)" if "threshold alarm \<noteq> None"
      using that entry [of 0] a(2) r by (auto simp: upperStep_def)
    have last_iff: "(index + k \<noteq> length intervals - 1) = (k \<noteq> length intervals - index - 1)"
      if "k < length intervals - index" for k
      using that by arith
    show ?thesis
      using a(1) b(1) r len entry zero last_iff by (auto simp: upperStep_def)
  qed
  show ?thesis
    using lower_part upper_part by blast
qed

text \<open>
  The five-interval policy: thresholds 20 and 50, two entries in each table, the
  threshold interval first and the outermost interval, open outwards, last.
\<close>

theorem C2_five_intervals_witness:
  "StepScalingPolicy normalize_intervals deriveThresholds fiveProps = Inr fivePolicy \<and>
   normalize_intervals (scalingSteps fiveProps) (changesAreAbsolute (adjustmentType fiveProps))
     = Inr fiveSteps \<and>
   deriveThresholds fiveSteps = Inr fiveAlarms \<and>
   (\<exists>alarm action.
      lowerAlarm fivePolicy = Some alarm \<and> lowerAction fivePolicy = Some action \<and>
      threshold alarm = Some 20 \<and>
      adjustments action
        = [\<lparr> adjustment = - 1, lowerBound = Some (Num (- 10)), upperBound = Some (Num 0) \<rparr>,
           \<lparr> adjustment = - 2, lowerBound = None, upperBound = Some (Num (- 10)) \<rparr>]) \<and>
   (\<exists>alarm action.
      upperAlarm fivePolicy = Some alarm \<and> upperAction fivePolicy = Some action \<and>
      threshold alarm = Some 50 \<and>
      adjustments action
        = [\<lparr> adjustment = 1, lowerBound = Some (Num 0), upperBound = Some (Num 20) \<rparr>,
           \<lparr> adjustment = 2, lowerBound = Some (Num 20), upperBound = None \<rparr>])"
proof -
  note hyps = construct_fiveProps normalize_fiveProps deriveThresholds_fiveSteps
  note tables = C2_step_tables [OF hyps]
  have lo: "lowerAlarmIntervalIndex fiveAlarms = Some 1"
    and up: "upperAlarmIntervalIndex fiveAlarms = Some 3"
    by (simp_all add: fiveAlarms_def)
  from tables lo obtain la lact where
    l: "lowerAlarm fivePolicy = Some la" "lowerAction fivePolicy = Some lact"
       "length (adjustments lact) = 1 + 1"
    by blast
  from tables up obtain ua uact where
    u: "upperAlarm fivePolicy = Some ua" "upperAction fivePolicy = Some uact"
       "length (adjustments uact) = length fiveSteps - 3"
    by blast
  have "threshold la = Some 20 \<and>
        adjustments lact
        = [\<lparr> adjustment = - 1, lowerBound = Some (Num (- 10)), upperBound = Some (Num 0) \<rparr>,
           \<lparr> adjustment = - 2, lowerBound = None, upperBound = Some (Num (- 10)) \<rparr>]"
    using l(1,2) by (auto simp: fivePolicy_def)
  moreover
  have "threshold ua = Some 50 \<and>
        adjustments uact
        = [\<lparr> adjustment = 1, lowerBound = Some (Num 0), upperBound = Some (Num 20) \<rparr>,
           \<lparr> adjustment = 2, lowerBound = Some (Num 20), upperBound = None \<rparr>]"
    using u(1,2) by (auto simp: fivePolicy_def)
  ultimately show ?thesis
    using hyps l(1,2) u(1,2) by blast
qed

subsection \<open>The example of the specification\<close>

text \<open>
  C1: for the input intervals
  \<^verbatim>\<open>[{upper:10,change:-1},{lower:10,upper:50,change:0},{lower:50,change:1}]\<close> with
  adjustment type \<open>ChangeInCapacity\<close>, constructing the policy yields
  \<open>lowerAlarmIntervalIndex = 0\<close> with lower alarm threshold 10 and lower step table
  exactly \<^verbatim>\<open>[{adjustment:-1, upperBound:0}]\<close> (\<open>lowerBound\<close> undefined), and
  \<open>upperAlarmIntervalIndex = 2\<close> with upper alarm threshold 50 and upper step table
  exactly \<^verbatim>\<open>[{adjustment:1, lowerBound:0}]\<close> (\<open>upperBound\<close> undefined). The
  normalizer and the deriver are the specification's; the metric is any metric the
  constructor accepts, the other properties are arbitrary.
\<close>

theorem C1_example_policy:
  assumes "scalingSteps props = exampleSteps"
      and "adjustmentType props = Some ChangeInCapacity"
      and "statistic (metric props) \<in> {''Average'', ''Minimum'', ''Maximum''}"
  shows "\<exists>pol la lact ua uact.
           normalize_intervals (scalingSteps props) (changesAreAbsolute (adjustmentType props))
             = Inr exampleSteps \<and>
           deriveThresholds exampleSteps
             = Inr \<lparr> lowerAlarmIntervalIndex = Some 0, upperAlarmIntervalIndex = Some 2 \<rparr> \<and>
           StepScalingPolicy normalize_intervals deriveThresholds props = Inr pol \<and>
           lowerAlarm pol = Some la \<and> threshold la = Some 10 \<and>
           lowerAction pol = Some lact \<and>
           adjustments lact
             = [\<lparr> adjustment = - 1, lowerBound = None, upperBound = Some (Num 0) \<rparr>] \<and>
           upperAlarm pol = Some ua \<and> threshold ua = Some 50 \<and>
           upperAction pol = Some uact \<and>
           adjustments uact
             = [\<lparr> adjustment = 1, lowerBound = Some (Num 0), upperBound = None \<rparr>]"
proof -
  from assms(3) obtain aggregation where
    agg: "aggregationTypeFromMetric (metric props) = Inr aggregation"
    by (auto simp: aggregationTypeFromMetric_def)
  have up: "[2..<3] = [2::nat]"
    by (simp add: upt_conv_Cons)
  obtain la lact where
    lo: "lowerBranch props exampleSteps
           \<lparr> lowerAlarmIntervalIndex = Some 0, upperAlarmIntervalIndex = Some 2 \<rparr>
         = Inr (Some la, Some lact)" and
    la: "threshold la = Some 10" and
    lact: "adjustments lact
             = [\<lparr> adjustment = - 1, lowerBound = None, upperBound = Some (Num 0) \<rparr>]"
    using agg
    by (simp add: lowerBranch_def lowerLoop_adjustments lowerStep_def onAlarm_def exampleSteps_def)
  obtain ua uact where
    hi: "upperBranch props exampleSteps
           \<lparr> lowerAlarmIntervalIndex = Some 0, upperAlarmIntervalIndex = Some 2 \<rparr>
         = Inr (Some ua, Some uact)" and
    ua: "threshold ua = Some 50" and
    uact: "adjustments uact
             = [\<lparr> adjustment = 1, lowerBound = Some (Num 0), upperBound = None \<rparr>]"
    using agg
    by (simp add: upperBranch_def upperLoop_adjustments upperStep_def onAlarm_def exampleSteps_def up)
  have "StepScalingPolicy normalize_intervals deriveThresholds props
          = Inr \<lparr> lowerAlarm = Some la, lowerAction = Some lact,
                  upperAlarm = Some ua, upperAction = Some uact \<rparr>"
    using assms(1) lo hi
    by (simp add: StepScalingPolicy_def normalize_exampleSteps deriveThresholds_exampleSteps)
       (simp add: exampleSteps_def)
  with la lact ua uact assms(1) show ?thesis
    by (simp add: normalize_exampleSteps deriveThresholds_exampleSteps)
qed

text \<open>The example with the metric \<open>CPUUtilization\<close>, statistic \<open>Average\<close>.\<close>

theorem C1_example_witness:
  "scalingSteps exampleProps = exampleSteps \<and>
   adjustmentType exampleProps = Some ChangeInCapacity \<and>
   statistic (metric exampleProps) \<in> {''Average'', ''Minimum'', ''Maximum''} \<and>
   (\<exists>pol la lact ua uact.
      normalize_intervals (scalingSteps exampleProps)
          (changesAreAbsolute (adjustmentType exampleProps))
        = Inr exampleSteps \<and>
      deriveThresholds exampleSteps
        = Inr \<lparr> lowerAlarmIntervalIndex = Some 0, upperAlarmIntervalIndex = Some 2 \<rparr> \<and>
      StepScalingPolicy normalize_intervals deriveThresholds exampleProps = Inr pol \<and>
      lowerAlarm pol = Some la \<and> threshold la = Some 10 \<and>
      lowerAction pol = Some lact \<and>
      adjustments lact
        = [\<lparr> adjustment = - 1, lowerBound = None, upperBound = Some (Num 0) \<rparr>] \<and>
      upperAlarm pol = Some ua \<and> threshold ua = Some 50 \<and>
      upperAction pol = Some uact \<and>
      adjustments uact
        = [\<lparr> adjustment = 1, lowerBound = Some (Num 0), upperBound = None \<rparr>])"
proof -
  have steps: "scalingSteps exampleProps = exampleSteps"
    by (simp add: exampleProps_def)
  have type: "adjustmentType exampleProps = Some ChangeInCapacity"
    by (simp add: exampleProps_def)
  have stat: "statistic (metric exampleProps) \<in> {''Average'', ''Minimum'', ''Maximum''}"
    by (simp add: exampleProps_def exampleMetric_def)
  from steps type stat C1_example_policy [OF steps type stat] show ?thesis
    by (intro conjI)
qed

subsection \<open>The deriver of the specification\<close>

lemma neutralIndex_first:
  "g < length intervals \<Longrightarrow> change (intervals ! g) = 0 \<Longrightarrow>
   \<forall>j<g. change (intervals ! j) \<noteq> 0 \<Longrightarrow> neutralIndex intervals = Some g"
proof (induction intervals arbitrary: g)
  case Nil
  then show ?case by simp
next
  case (Cons s rest)
  show ?case
  proof (cases g)
    case 0
    with Cons.prems show ?thesis by simp
  next
    case (Suc g')
    with Cons.prems have head: "change s \<noteq> 0"
      by auto
    from Suc Cons.prems have "\<forall>j<g'. change (rest ! j) \<noteq> 0"
      by auto
    with Suc Cons.prems have "neutralIndex rest = Some g'"
      by (intro Cons.IH) auto
    with head Suc show ?thesis by simp
  qed
qed

text \<open>
  C4: for every interval sequence containing a neutral interval with change = 0 that has
  an interval with nonzero change on each side, the threshold derivation returns both
  \<open>lowerAlarmIntervalIndex\<close> and \<open>upperAlarmIntervalIndex\<close> defined, and each index
  identifies the interval directly adjacent to the neutral interval (lower index =
  neutral index - 1, upper index = neutral index + 1). The neutral interval \<open>g\<close> is
  the interval with change 0 that the derivation finds, the lowest one; where only one
  interval has change 0, as the specification assumes, it is that one. The sequence
  need not be normalized.
\<close>

theorem C4_neutral_flanked:
  assumes "g < length intervals"
      and "change (intervals ! g) = 0"
      and "\<forall>j<g. change (intervals ! j) \<noteq> 0"
      and "0 < g" and "g + 1 < length intervals"
      and "change (intervals ! (g - 1)) \<noteq> 0"
      and "change (intervals ! (g + 1)) \<noteq> 0"
  shows "deriveThresholds intervals
           = Inr \<lparr> lowerAlarmIntervalIndex = Some (g - 1), upperAlarmIntervalIndex = Some (g + 1) \<rparr>"
  using assms neutralIndex_first [OF assms(1,2,3)]
  by (simp add: deriveThresholds_def)

text \<open>The five intervals: the neutral one is interval 2.\<close>

theorem C4_five_intervals_witness:
  "2 < length fiveSteps \<and> change (fiveSteps ! 2) = 0 \<and>
   change (fiveSteps ! 0) \<noteq> 0 \<and> change (fiveSteps ! 1) \<noteq> 0 \<and>
   2 + 1 < length fiveSteps \<and> change (fiveSteps ! (2 + 1)) \<noteq> 0 \<and>
   deriveThresholds fiveSteps
     = Inr \<lparr> lowerAlarmIntervalIndex = Some (2 - 1), upperAlarmIntervalIndex = Some (2 + 1) \<rparr>"
proof -
  have len: "2 < length fiveSteps" "2 + 1 < length fiveSteps"
    by (simp_all add: fiveSteps_def)
  have zero: "change (fiveSteps ! 2) = 0"
    by (simp add: fiveSteps_def)
  have c0: "change (fiveSteps ! 0) \<noteq> 0" and c1: "change (fiveSteps ! 1) \<noteq> 0"
    and c3: "change (fiveSteps ! (2 + 1)) \<noteq> 0"
    by (simp_all add: fiveSteps_def)
  have below: "\<forall>j<2. change (fiveSteps ! j) \<noteq> 0"
  proof (intro allI impI)
    fix j :: nat assume "j < 2"
    then have "j = 0 \<or> j = 1" by arith
    with c0 c1 show "change (fiveSteps ! j) \<noteq> 0" by auto
  qed
  have c1': "change (fiveSteps ! (2 - 1)) \<noteq> 0"
    using c1 by simp
  have pos: "(0::nat) < 2" by simp
  from C4_neutral_flanked [OF len(1) zero below pos len(2) c1' c3] len zero c0 c1 c3
  show ?thesis by (intro conjI)
qed

subsection \<open>The normalizer of the specification\<close>















lemma fillBounds_filled:
  "list_all (\<lambda>s. lower s \<noteq> None) steps \<Longrightarrow>
   list_all (\<lambda>s. upper s \<noteq> None) (butlast steps) \<Longrightarrow> fillBounds prev steps = steps"
proof (induction steps arbitrary: prev)
  case Nil
  then show ?case by simp
next
  case (Cons s rest)
  then have "fillBounds (Some s) rest = rest"
    by (cases rest) auto
  with Cons.prems show ?case
    by (cases rest) (auto split: option.splits)
qed

lemma fillBounds_normalized:
  assumes "list_all (\<lambda>s. lower s \<noteq> None) (tl intervals)"
      and "list_all (\<lambda>s. upper s \<noteq> None) (butlast intervals)"
  shows "fillBounds None intervals = intervals"
proof (cases intervals)
  case Nil
  then show ?thesis by simp
next
  case (Cons s rest)
  with assms have "fillBounds (Some s) rest = rest"
    by (intro fillBounds_filled) (auto split: if_splits)
  with Cons assms show ?thesis
    by (cases rest) (auto split: option.splits)
qed

lemma filter_tl_empty:
  "list_all (\<lambda>s. \<not> P s) (tl xs) \<Longrightarrow> length (filter P xs) \<le> 1"
  by (cases xs) (auto simp: list_all_iff filter_empty_conv)

lemma filter_butlast_empty:
  assumes "list_all (\<lambda>s. \<not> P s) (butlast xs)"
  shows "length (filter P xs) \<le> 1"
proof (cases "xs = []")
  case True
  then show ?thesis by simp
next
  case False
  then have "xs = butlast xs @ [last xs]" by simp
  then have "filter P xs = filter P (butlast xs) @ filter P [last xs]"
    by (metis filter_append)
  moreover from assms have "filter P (butlast xs) = []"
    by (auto simp: list_all_iff filter_empty_conv)
  ultimately show ?thesis by simp
qed

text \<open>
  C6: normalization is idempotent: for every already-normalized interval sequence,
  that is sorted (ascending in the boundary key of the normalizer), contiguous, and with
  all inner bounds filled (only the first interval may lack its lower bound, only the
  last its upper bound), applying the normalizer to it yields the same sequence, for
  either value of the flag.
\<close>

theorem C6_normalize_idempotent:
  assumes "sorted (map sortKey intervals)"
      and "contiguous intervals"
      and "list_all (\<lambda>s. lower s \<noteq> None) (tl intervals)"
      and "list_all (\<lambda>s. upper s \<noteq> None) (butlast intervals)"
  shows "normalize_intervals intervals absolute = Inr intervals"
proof -
  have "openLowerCount intervals \<le> 1"
    unfolding openLowerCount_def using assms(3) by (intro filter_tl_empty) simp
  moreover have "openUpperCount intervals \<le> 1"
    unfolding openUpperCount_def using assms(4) by (intro filter_butlast_empty) simp
  moreover have "sortIntervals intervals = intervals"
    using assms(1) by (simp add: sortIntervals_def sort_key_id_if_sorted)
  moreover have "fillBounds None intervals = intervals"
    using assms(3,4) by (rule fillBounds_normalized)
  ultimately show ?thesis
    using assms(2) by (simp add: normalize_intervals_def)
qed

text \<open>The five intervals are normalized; so is the result of normalizing them.\<close>

theorem C6_five_intervals_witness:
  "sorted (map sortKey fiveSteps) \<and> contiguous fiveSteps \<and>
   list_all (\<lambda>s. lower s \<noteq> None) (tl fiveSteps) \<and>
   list_all (\<lambda>s. upper s \<noteq> None) (butlast fiveSteps) \<and>
   normalize_intervals fiveSteps True = Inr fiveSteps \<and>
   normalize_intervals fiveSteps False = Inr fiveSteps"
proof -
  have s: "sorted (map sortKey fiveSteps)"
    by (simp add: fiveSteps_def sortKey_def)
  have c: "contiguous fiveSteps"
    by (simp add: fiveSteps_def)
  have l: "list_all (\<lambda>s. lower s \<noteq> None) (tl fiveSteps)"
    by (simp add: fiveSteps_def)
  have u: "list_all (\<lambda>s. upper s \<noteq> None) (butlast fiveSteps)"
    by (simp add: fiveSteps_def)
  from s c l u C6_normalize_idempotent [OF s c l u, of True]
    C6_normalize_idempotent [OF s c l u, of False]
  show ?thesis by (intro conjI)
qed

subsection \<open>Unsupported statistics\<close>

text \<open>
  C7, as stated: for every metric whose statistic is not one of \<open>Average\<close>,
  \<open>Minimum\<close>, \<open>Maximum\<close>, constructing the policy raises a configuration error.
  The constructor calls \<open>aggregationTypeFromMetric\<close> only inside the two alarm
  branches. Two intervals with change 0 derive no alarm, and the policy is constructed
  although the statistic is \<open>p99\<close>.
\<close>

theorem C7_no_alarm_counterexample:
  "statistic (metric quietProps) \<notin> {''Average'', ''Minimum'', ''Maximum''} \<and>
   StepScalingPolicy normalize_intervals deriveThresholds quietProps
     = Inr \<lparr> lowerAlarm = None, lowerAction = None, upperAlarm = None, upperAction = None \<rparr>"
proof -
  have "statistic (metric quietProps) \<notin> {''Average'', ''Minimum'', ''Maximum''}"
    by (simp add: quietProps_def)
  moreover
  have "StepScalingPolicy normalize_intervals deriveThresholds quietProps
     = Inr \<lparr> lowerAlarm = None, lowerAction = None, upperAlarm = None, upperAction = None \<rparr>"
    by code_simp
  ultimately show ?thesis ..
qed

text \<open>
  C7, amended: for every metric whose statistic is not one of \<open>Average\<close>,
  \<open>Minimum\<close>, \<open>Maximum\<close>, constructing the policy raises the unsupported-statistic
  error at construction time whenever at least 2 intervals are supplied, normalization
  and threshold derivation succeed, and at least one alarm index, lower or upper, is
  derived, each derived index lying within the intervals.
\<close>

theorem C7_unsupported_statistic:
  assumes "statistic (metric props) \<notin> {''Average'', ''Minimum'', ''Maximum''}"
      and "2 \<le> length (scalingSteps props)"
      and "normalizeIntervals (scalingSteps props) (changesAreAbsolute (adjustmentType props))
             = Inr intervals"
      and "findAlarmThresholds intervals = Inr alarms"
      and "lowerAlarmIntervalIndex alarms \<noteq> None \<or> upperAlarmIntervalIndex alarms \<noteq> None"
      and "\<forall>i. lowerAlarmIntervalIndex alarms = Some i \<longrightarrow> i < length intervals"
      and "\<forall>i. upperAlarmIntervalIndex alarms = Some i \<longrightarrow> i < length intervals"
  shows "StepScalingPolicy normalizeIntervals findAlarmThresholds props
           = Inl (UnsupportedStatistic (statistic (metric props)))"
proof -
  note agg = aggregationTypeFromMetric_Inl [OF assms(1)]
  show ?thesis
  proof (cases "lowerAlarmIntervalIndex alarms")
    case (Some i)
    with assms(6) have "lowerBranch props intervals alarms
                          = Inl (UnsupportedStatistic (statistic (metric props)))"
      by (simp add: lowerBranch_def agg)
    with assms(2,3,4) show ?thesis
      by (simp add: StepScalingPolicy_def)
  next
    case None
    with assms(5) obtain j where j: "upperAlarmIntervalIndex alarms = Some j"
      by auto
    with assms(7) have "upperBranch props intervals alarms
                          = Inl (UnsupportedStatistic (statistic (metric props)))"
      by (simp add: upperBranch_def agg)
    with None assms(2,3,4) show ?thesis
      by (simp add: StepScalingPolicy_def lowerBranch_None)
  qed
qed

text \<open>The example of the specification with the statistic \<open>p99\<close>.\<close>

theorem C7_p99_witness:
  "statistic (metric p99Props) = ''p99'' \<and>
   ''p99'' \<notin> {''Average'', ''Minimum'', ''Maximum''} \<and>
   2 \<le> length (scalingSteps p99Props) \<and>
   normalize_intervals (scalingSteps p99Props) (changesAreAbsolute (adjustmentType p99Props))
     = Inr exampleSteps \<and>
   deriveThresholds exampleSteps
     = Inr \<lparr> lowerAlarmIntervalIndex = Some 0, upperAlarmIntervalIndex = Some 2 \<rparr> \<and>
   length exampleSteps = 3 \<and>
   StepScalingPolicy normalize_intervals deriveThresholds p99Props
     = Inl (UnsupportedStatistic ''p99'')"
proof -
  let ?alarms = "\<lparr> lowerAlarmIntervalIndex = Some 0, upperAlarmIntervalIndex = Some 2 \<rparr>"
  have name: "statistic (metric p99Props) = ''p99''"
    by (simp add: p99Props_def)
  have other: "''p99'' \<notin> {''Average'', ''Minimum'', ''Maximum''}"
    by simp
  have stat: "statistic (metric p99Props) \<notin> {''Average'', ''Minimum'', ''Maximum''}"
    by (simp add: p99Props_def)
  have len: "2 \<le> length (scalingSteps p99Props)"
    by (simp add: p99Props_def exampleProps_def exampleSteps_def)
  have nrm: "normalize_intervals (scalingSteps p99Props)
               (changesAreAbsolute (adjustmentType p99Props)) = Inr exampleSteps"
    by (simp add: p99Props_def exampleProps_def normalize_exampleSteps)
  have three: "length exampleSteps = 3"
    by (simp add: exampleSteps_def)
  have some: "lowerAlarmIntervalIndex ?alarms \<noteq> None \<or> upperAlarmIntervalIndex ?alarms \<noteq> None"
    by simp
  have lo: "\<forall>i. lowerAlarmIntervalIndex ?alarms = Some i \<longrightarrow> i < length exampleSteps"
    by (simp add: three)
  have up: "\<forall>i. upperAlarmIntervalIndex ?alarms = Some i \<longrightarrow> i < length exampleSteps"
    by (simp add: three)
  from C7_unsupported_statistic
         [where props = p99Props and normalizeIntervals = normalize_intervals
            and findAlarmThresholds = deriveThresholds and intervals = exampleSteps
            and alarms = ?alarms,
          OF stat len nrm deriveThresholds_exampleSteps some lo up]
  have "StepScalingPolicy normalize_intervals deriveThresholds p99Props
          = Inl (UnsupportedStatistic ''p99'')"
    by (simp add: name)
  with name other len nrm deriveThresholds_exampleSteps three show ?thesis
    by (intro conjI)
qed

subsection \<open>The default adjustment type\<close>

lemma changesAreAbsolute_iff: "changesAreAbsolute t = (t = Some ExactCapacity)"
  by (cases t) (simp_all add: changesAreAbsolute_def)

lemma lowerBranch_type:
  "lowerBranch (props\<lparr>adjustmentType := t\<rparr>) intervals alarms
     = map_sum id (\<lambda>(a, act). (a, map_option (\<lambda>a. a\<lparr>actionAdjustmentType := t\<rparr>) act))
         (lowerBranch props intervals alarms)"
  by (simp add: lowerBranch_def Let_def lowerLoop_adjustments onAlarm_def
           split: option.splits sum.splits)

lemma upperBranch_type:
  "upperBranch (props\<lparr>adjustmentType := t\<rparr>) intervals alarms
     = map_sum id (\<lambda>(a, act). (a, map_option (\<lambda>a. a\<lparr>actionAdjustmentType := t\<rparr>) act))
         (upperBranch props intervals alarms)"
  by (simp add: upperBranch_def Let_def upperLoop_adjustments onAlarm_def
           split: option.splits sum.splits)

lemma StepScalingPolicy_type:
  assumes "changesAreAbsolute t = changesAreAbsolute (adjustmentType props)"
  shows "StepScalingPolicy normalizeIntervals findAlarmThresholds (props\<lparr>adjustmentType := t\<rparr>)
           = map_sum id (forwardedType t)
               (StepScalingPolicy normalizeIntervals findAlarmThresholds props)"
proof (cases "normalizeIntervals (scalingSteps props) (changesAreAbsolute (adjustmentType props))")
  case (Inl e)
  then show ?thesis
    by (simp add: StepScalingPolicy_def assms)
next
  case intervals: (Inr intervals)
  show ?thesis
  proof (cases "findAlarmThresholds intervals")
    case (Inl e)
    with intervals show ?thesis
      by (simp add: StepScalingPolicy_def assms)
  next
    case alarms: (Inr alarms)
    show ?thesis
    proof (cases "lowerBranch props intervals alarms")
      case (Inl e)
      with intervals alarms show ?thesis
        by (simp add: StepScalingPolicy_def assms lowerBranch_type)
    next
      case lo: (Inr lo)
      show ?thesis
      proof (cases "upperBranch props intervals alarms")
        case (Inl e)
        with intervals alarms lo show ?thesis
          by (simp add: StepScalingPolicy_def assms lowerBranch_type upperBranch_type
                split: prod.splits)
      next
        case (Inr up)
        with intervals alarms lo show ?thesis
          by (simp add: StepScalingPolicy_def assms lowerBranch_type upperBranch_type
                forwardedType_def split: prod.splits)
      qed
    qed
  qed
qed

lemma construct_fiveProps_change:
  "StepScalingPolicy normalize_intervals deriveThresholds
     (fiveProps\<lparr>adjustmentType := Some ChangeInCapacity\<rparr>) = Inr fivePolicyChange"
  by code_simp

text \<open>
  C10: when \<open>props.adjustmentType\<close> is omitted, the policy behaves exactly as if
  \<open>ChangeInCapacity\<close> were supplied: normalization is invoked with absolute-capacity
  semantics false, and that flag is true if and only if the adjustment type is
  \<open>ExactCapacity\<close> (so \<open>PercentChangeInCapacity\<close> is also treated as relative).
  The constructor applies the default to the flag only (line 80) and hands
  \<^verbatim>\<open>props.adjustmentType\<close> itself to both actions (lines 90 and 120). Whenever
  construction with \<open>ChangeInCapacity\<close> returns a policy, construction with the type
  omitted reads the normalizer at the same flag, false, and returns the same alarms and
  the same step tables, but every action it creates is given no adjustment type where
  the other is given \<open>ChangeInCapacity\<close>: the two policies differ as soon as one
  alarm is derived.
\<close>

theorem C10_omitted_type_forwarded:
  assumes "StepScalingPolicy normalizeIntervals findAlarmThresholds
             (props\<lparr>adjustmentType := Some ChangeInCapacity\<rparr>) = Inr pol"
  shows "(\<forall>t. changesAreAbsolute t = (t = Some ExactCapacity)) \<and>
         changesAreAbsolute None = changesAreAbsolute (Some ChangeInCapacity) \<and>
         (\<exists>intervals. normalizeIntervals (scalingSteps props) False = Inr intervals) \<and>
         StepScalingPolicy normalizeIntervals findAlarmThresholds (props\<lparr>adjustmentType := None\<rparr>)
           = Inr (forwardedType None pol) \<and>
         lowerAlarm (forwardedType None pol) = lowerAlarm pol \<and>
         upperAlarm (forwardedType None pol) = upperAlarm pol \<and>
         map_option adjustments (lowerAction (forwardedType None pol))
           = map_option adjustments (lowerAction pol) \<and>
         map_option adjustments (upperAction (forwardedType None pol))
           = map_option adjustments (upperAction pol) \<and>
         (\<forall>a. lowerAction pol = Some a \<longrightarrow>
            actionAdjustmentType a = Some ChangeInCapacity \<and>
            lowerAction (forwardedType None pol) = Some (a\<lparr>actionAdjustmentType := None\<rparr>)) \<and>
         (\<forall>a. upperAction pol = Some a \<longrightarrow>
            actionAdjustmentType a = Some ChangeInCapacity \<and>
            upperAction (forwardedType None pol) = Some (a\<lparr>actionAdjustmentType := None\<rparr>)) \<and>
         (lowerAction pol = None \<and> upperAction pol = None \<or> forwardedType None pol \<noteq> pol)"
proof -
  let ?given = "props\<lparr>adjustmentType := Some ChangeInCapacity\<rparr>"
  have iff: "\<forall>t. changesAreAbsolute t = (t = Some ExactCapacity)"
    by (simp add: changesAreAbsolute_iff)
  have flag: "changesAreAbsolute None = changesAreAbsolute (Some ChangeInCapacity)"
    by (simp add: changesAreAbsolute_iff)
  from StepScalingPolicy_Inr [OF assms] obtain intervals alarms where
    nrm: "normalizeIntervals (scalingSteps props) False = Inr intervals" and
    lo: "lowerBranch ?given intervals alarms = Inr (lowerAlarm pol, lowerAction pol)" and
    up: "upperBranch ?given intervals alarms = Inr (upperAlarm pol, upperAction pol)"
    by (auto simp: changesAreAbsolute_iff)
  have omitted: "StepScalingPolicy normalizeIntervals findAlarmThresholds
                   (props\<lparr>adjustmentType := None\<rparr>) = Inr (forwardedType None pol)"
    using StepScalingPolicy_type
            [of None ?given normalizeIntervals findAlarmThresholds] assms
    by (simp add: changesAreAbsolute_iff)
  have lower_type: "actionAdjustmentType a = Some ChangeInCapacity"
    if "lowerAction pol = Some a" for a
  proof (cases "lowerAlarmIntervalIndex alarms")
    case None
    with lo that show ?thesis by (simp add: lowerBranch_None)
  next
    case (Some index)
    from lowerBranch_Inr [OF lo Some] that show ?thesis by auto
  qed
  have upper_type: "actionAdjustmentType a = Some ChangeInCapacity"
    if "upperAction pol = Some a" for a
  proof (cases "upperAlarmIntervalIndex alarms")
    case None
    with up that show ?thesis by (simp add: upperBranch_None)
  next
    case (Some index)
    from upperBranch_Inr [OF up Some] that show ?thesis by auto
  qed
  have differ: "forwardedType None pol \<noteq> pol"
    if "\<not> (lowerAction pol = None \<and> upperAction pol = None)"
  proof
    assume same: "forwardedType None pol = pol"
    from that consider a where "lowerAction pol = Some a" | a where "upperAction pol = Some a"
      by auto
    then show False
    proof cases
      case 1
      from same have "lowerAction (forwardedType None pol) = lowerAction pol" by simp
      with 1 lower_type [OF 1] show False
        by (auto simp: forwardedType_def dest: arg_cong [where f = actionAdjustmentType])
    next
      case 2
      from same have "upperAction (forwardedType None pol) = upperAction pol" by simp
      with 2 upper_type [OF 2] show False
        by (auto simp: forwardedType_def dest: arg_cong [where f = actionAdjustmentType])
    qed
  qed
  have alarms_same:
    "lowerAlarm (forwardedType None pol) = lowerAlarm pol"
    "upperAlarm (forwardedType None pol) = upperAlarm pol"
    by (simp_all add: forwardedType_def)
  have same_adjustments:
    "map_option adjustments (lowerAction (forwardedType None pol))
       = map_option adjustments (lowerAction pol)"
    "map_option adjustments (upperAction (forwardedType None pol))
       = map_option adjustments (upperAction pol)"
    by (simp_all add: forwardedType_def option.map_comp comp_def)
  have lower_both: "\<forall>a. lowerAction pol = Some a \<longrightarrow>
            actionAdjustmentType a = Some ChangeInCapacity \<and>
            lowerAction (forwardedType None pol) = Some (a\<lparr>actionAdjustmentType := None\<rparr>)"
    using lower_type by (simp add: forwardedType_def)
  have upper_both: "\<forall>a. upperAction pol = Some a \<longrightarrow>
            actionAdjustmentType a = Some ChangeInCapacity \<and>
            upperAction (forwardedType None pol) = Some (a\<lparr>actionAdjustmentType := None\<rparr>)"
    using upper_type by (simp add: forwardedType_def)
  have invoked: "\<exists>intervals. normalizeIntervals (scalingSteps props) False = Inr intervals"
    using nrm ..
  have last: "lowerAction pol = None \<and> upperAction pol = None \<or> forwardedType None pol \<noteq> pol"
    using differ by blast
  from iff flag invoked omitted alarms_same same_adjustments lower_both upper_both last
  show ?thesis
    by (intro conjI)
qed

text \<open>
  The five intervals: the policy built with the type omitted and the policy built with
  \<open>ChangeInCapacity\<close> are different policies.
\<close>

theorem C10_five_intervals_witness:
  "StepScalingPolicy normalize_intervals deriveThresholds
     (fiveProps\<lparr>adjustmentType := Some ChangeInCapacity\<rparr>) = Inr fivePolicyChange \<and>
   adjustmentType fiveProps = None \<and>
   StepScalingPolicy normalize_intervals deriveThresholds fiveProps = Inr fivePolicy \<and>
   forwardedType None fivePolicyChange = fivePolicy \<and>
   fivePolicy \<noteq> fivePolicyChange \<and>
   map_option actionAdjustmentType (lowerAction fivePolicy) = Some None \<and>
   map_option actionAdjustmentType (lowerAction fivePolicyChange) = Some (Some ChangeInCapacity) \<and>
   map_option actionAdjustmentType (upperAction fivePolicy) = Some None \<and>
   map_option actionAdjustmentType (upperAction fivePolicyChange) = Some (Some ChangeInCapacity)"
proof -
  note run = construct_fiveProps_change
  note c10 = C10_omitted_type_forwarded
               [where props = fiveProps and normalizeIntervals = normalize_intervals
                  and findAlarmThresholds = deriveThresholds, OF run]
  have omitted: "adjustmentType fiveProps = None"
    by (simp add: fiveProps_def)
  then have same: "fiveProps\<lparr>adjustmentType := None\<rparr> = fiveProps"
    by (simp add: fiveProps_def)
  from c10 have "StepScalingPolicy normalize_intervals deriveThresholds
                   (fiveProps\<lparr>adjustmentType := None\<rparr>) = Inr (forwardedType None fivePolicyChange)"
    by (elim conjE)
  then have erased: "forwardedType None fivePolicyChange = fivePolicy"
    unfolding same construct_fiveProps by simp
  have present: "\<not> (lowerAction fivePolicyChange = None \<and> upperAction fivePolicyChange = None)"
    by (simp add: fivePolicyChange_def forwardedType_def fivePolicy_def)
  from c10 present have "forwardedType None fivePolicyChange \<noteq> fivePolicyChange"
    by blast
  with erased have differ: "fivePolicy \<noteq> fivePolicyChange"
    by simp
  have types:
    "map_option actionAdjustmentType (lowerAction fivePolicy) = Some None"
    "map_option actionAdjustmentType (lowerAction fivePolicyChange) = Some (Some ChangeInCapacity)"
    "map_option actionAdjustmentType (upperAction fivePolicy) = Some None"
    "map_option actionAdjustmentType (upperAction fivePolicyChange) = Some (Some ChangeInCapacity)"
    by (simp_all add: fivePolicyChange_def forwardedType_def fivePolicy_def)
  from run omitted construct_fiveProps erased differ types show ?thesis
    by (intro conjI)
qed

end
